theory Spec2Isabelle
  imports Main "HOL-Library.Sublist"
begin

section \<open>Data model\<close>

text \<open>
  The screen of \<^verbatim>\<open>app/(tabs)/index.tsx\<close> (and its earlier form \<^verbatim>\<open>app.js\<close>, whose
  \<^verbatim>\<open>loadData\<close> and \<^verbatim>\<open>toggleFavorite\<close> have the same bodies) keeps six pieces of React
  state and talks to three outside services: the REST endpoint (axios), the key-value store
  (AsyncStorage) and the dialog/console surface (Alert, console.error).

  An id is a JavaScript number holding an integer; it is modelled as \<open>int\<close>, and \<open>js_number\<close>
  below says which integers a number can hold. A string is a sequence of characters with
  code below 256.
\<close>

record user =
  id_user :: int
  name :: string
  email :: string

record state =
  users :: "user list"
  favorites :: "int list"
  isLoading :: bool
  showOnlyFavorites :: bool
  newUserName :: string
  newUserEmail :: string

text \<open>The values of the \<^verbatim>\<open>useState\<close> initialisers.\<close>

definition initial_state :: state where
  "initial_state =
     \<lparr>users = [], favorites = [], isLoading = True, showOnlyFavorites = False,
      newUserName = [], newUserEmail = []\<rparr>"

text \<open>
  Every \<^verbatim>\<open>Alert.alert\<close> call site of the source is one constructor (the texts are French
  and fixed, except the success text of \<^verbatim>\<open>addUser\<close>, which interpolates the name and the id
  of the new user):
  \<^item> \<open>LoadFailure\<close>: "Erreur", "Impossible de charger les donnees";
  \<^item> \<open>ClearConfirmation\<close>: "Confirmation", "Voulez-vous vraiment effacer tous les favoris ?",
    with the two buttons of \<open>buttons\<close>;
  \<^item> \<open>ClearSuccess\<close>: "Succes", "Tous les favoris ont ete effaces";
  \<^item> \<open>ClearFailure\<close>: "Erreur", "Impossible d'effacer les favoris";
  \<^item> \<open>ValidationFailure\<close>: "Erreur", "Veuillez remplir tous les champs";
  \<^item> \<open>AddSuccess n i\<close>: "Succes", "Utilisateur n ajoute avec l'ID i";
  \<^item> \<open>AddFailure\<close>: "Erreur", "Impossible d'ajouter l'utilisateur".
\<close>

datatype notification =
    LoadFailure
  | ClearConfirmation
  | ClearSuccess
  | ClearFailure
  | ValidationFailure
  | AddSuccess string int
  | AddFailure

datatype button_style = Cancel | Destructive

datatype choice = Annuler | Effacer

text \<open>The button array passed to \<^verbatim>\<open>Alert.alert\<close>; a call without one shows a single
  acknowledgment, written as the empty list.\<close>

fun buttons :: "notification \<Rightarrow> (choice \<times> button_style) list" where
  "buttons ClearConfirmation = [(Annuler, Cancel), (Effacer, Destructive)]"
| "buttons _ = []"

text \<open>The \<^verbatim>\<open>console.error\<close> call sites: in \<^verbatim>\<open>loadData\<close>, \<^verbatim>\<open>toggleFavorite\<close>
  ("Erreur de sauvegarde"), \<^verbatim>\<open>clearAllFavorites\<close> ("Erreur lors de l'effacement") and
  \<^verbatim>\<open>addUser\<close> ("Erreur lors de l'ajout").\<close>

datatype diagnostic = LoadError | SaveError | ClearError | AddError

text \<open>
  Everything a handler does besides returning is appended to a trace, in program order: the
  calls of the state setters, the requests sent, the storage operations attempted, the
  dialogs shown, the diagnostics logged, and a promise rejection nobody handles.
  \<open>SetFavoritesOther\<close> is a call of \<^verbatim>\<open>setFavorites\<close> with a value that is not a list of integers.
\<close>

datatype event =
    SetUsers "user list"
  | SetFavorites "int list"
  | SetFavoritesOther
  | SetIsLoading bool
  | SetNewUserName string
  | SetNewUserEmail string
  | HttpGet
  | HttpPost string string
  | StorageGet string
  | StorageSet string string
  | StorageRemove string
  | AlertShown notification
  | ConsoleError diagnostic
  | UnhandledRejection

record world =
  storage :: "string \<rightharpoonup> string"
  trace :: "event list"

datatype 'a outcome = Rejected | Resolved 'a

definition FAVORITES_KEY :: string where
  "FAVORITES_KEY = ''@my_favorites_ids''"

section \<open>Effects\<close>

definition emit :: "event \<Rightarrow> world \<Rightarrow> world" where
  "emit e w = w\<lparr>trace := trace w @ [e]\<rparr>"

definition Alert_alert :: "notification \<Rightarrow> state \<times> world \<Rightarrow> state \<times> world" where
  "Alert_alert n c = (fst c, emit (AlertShown n) (snd c))"

definition console_error :: "diagnostic \<Rightarrow> state \<times> world \<Rightarrow> state \<times> world" where
  "console_error d c = (fst c, emit (ConsoleError d) (snd c))"

definition setUsers :: "user list \<Rightarrow> state \<times> world \<Rightarrow> state \<times> world" where
  "setUsers v c = ((fst c)\<lparr>users := v\<rparr>, emit (SetUsers v) (snd c))"

definition setFavorites :: "int list \<Rightarrow> state \<times> world \<Rightarrow> state \<times> world" where
  "setFavorites v c = ((fst c)\<lparr>favorites := v\<rparr>, emit (SetFavorites v) (snd c))"

definition setIsLoading :: "bool \<Rightarrow> state \<times> world \<Rightarrow> state \<times> world" where
  "setIsLoading v c = ((fst c)\<lparr>isLoading := v\<rparr>, emit (SetIsLoading v) (snd c))"

definition setNewUserName :: "string \<Rightarrow> state \<times> world \<Rightarrow> state \<times> world" where
  "setNewUserName v c = ((fst c)\<lparr>newUserName := v\<rparr>, emit (SetNewUserName v) (snd c))"

definition setNewUserEmail :: "string \<Rightarrow> state \<times> world \<Rightarrow> state \<times> world" where
  "setNewUserEmail v c = ((fst c)\<lparr>newUserEmail := v\<rparr>, emit (SetNewUserEmail v) (snd c))"

text \<open>
  The three AsyncStorage operations. Each takes a flag saying whether the promise resolves;
  a rejected operation leaves the store as it was.
\<close>

definition AsyncStorage_getItem ::
  "bool \<Rightarrow> string \<Rightarrow> state \<times> world \<Rightarrow> string option outcome \<times> state \<times> world" where
  "AsyncStorage_getItem ok k c =
     ((if ok then Resolved (storage (snd c) k) else Rejected),
      fst c, emit (StorageGet k) (snd c))"

definition AsyncStorage_setItem ::
  "bool \<Rightarrow> string \<Rightarrow> string \<Rightarrow> state \<times> world \<Rightarrow> unit outcome \<times> state \<times> world" where
  "AsyncStorage_setItem ok k v c =
     (if ok then (Resolved (), fst c, emit (StorageSet k v) ((snd c)\<lparr>storage := (storage (snd c))(k \<mapsto> v)\<rparr>))
      else (Rejected, fst c, emit (StorageSet k v) (snd c)))"

definition AsyncStorage_removeItem ::
  "bool \<Rightarrow> string \<Rightarrow> state \<times> world \<Rightarrow> unit outcome \<times> state \<times> world" where
  "AsyncStorage_removeItem ok k c =
     (if ok then (Resolved (), fst c, emit (StorageRemove k) ((snd c)\<lparr>storage := (storage (snd c))(k := None)\<rparr>))
      else (Rejected, fst c, emit (StorageRemove k) (snd c)))"

text \<open>The two requests. The argument is what the remote service answers: \<^verbatim>\<open>response.data\<close>,
  or a failure of the transport.\<close>

definition axios_get ::
  "user list outcome \<Rightarrow> state \<times> world \<Rightarrow> user list outcome \<times> state \<times> world" where
  "axios_get response c = (response, fst c, emit HttpGet (snd c))"

definition axios_post ::
  "user outcome \<Rightarrow> string \<Rightarrow> string \<Rightarrow> state \<times> world \<Rightarrow> user outcome \<times> state \<times> world" where
  "axios_post response n e c = (response, fst c, emit (HttpPost n e) (snd c))"

section \<open>Array and string primitives\<close>

text \<open>\<^verbatim>\<open>Array.prototype.includes\<close>: a linear search by value. \<^verbatim>\<open>Array.prototype.filter\<close>
  is \<^const>\<open>filter\<close>, and the spread \<^verbatim>\<open>[...favorites, userId]\<close> appends.\<close>

primrec includes_list :: "'a list \<Rightarrow> 'a \<Rightarrow> bool" where
  "includes_list [] x = False"
| "includes_list (y # ys) x = (if y = x then True else includes_list ys x)"

section \<open>Numbers\<close>

text \<open>
  A JavaScript number is an IEEE 754 double. The model keeps ids as \<open>int\<close> and says with
  \<open>js_number\<close> which integers are numbers: those a double holds exactly. Every integer of
  magnitude below \<open>2 ^ 53\<close> is one (lemma \<open>js_number_safe\<close>); above, only the multiples of
  the spacing of the doubles are, up to the largest double.

  \<open>to_double a b\<close> rounds the positive fraction \<open>a / b\<close> to the nearest double, ties to the
  even significand, as the conversion of a numeric literal does: the result \<open>Some (m, u)\<close> is
  the double \<open>m * 2 ^ u\<close>, with \<open>u\<close> the exponent of the last place (not below that of the
  subnormals), and \<open>None\<close> is the overflow to infinity. \<open>double_of_decimal m s\<close> is the double
  of the decimal \<open>m * 10 ^ s\<close> when that double is an integer.
\<close>

function bit_length :: "int \<Rightarrow> int" where
  "bit_length n = (if n \<le> 0 then 0 else 1 + bit_length (n div 2))"
  by pat_completeness auto
termination
  by (relation "measure nat") auto

declare bit_length.simps [simp del]

definition round_half_even :: "int \<Rightarrow> int \<Rightarrow> int" where
  "round_half_even x y =
     (let q = x div y; r = x mod y
      in if y < 2 * r \<or> (2 * r = y \<and> odd q) then q + 1 else q)"

definition binary_exponent :: "int \<Rightarrow> int \<Rightarrow> int" where
  "binary_exponent a b =
     (let d = bit_length a - bit_length b
      in if (if 0 \<le> d then b * 2 ^ nat d \<le> a else b \<le> a * 2 ^ nat (- d)) then d else d - 1)"

definition to_double :: "int \<Rightarrow> int \<Rightarrow> (int \<times> int) option" where
  "to_double a b =
     (if a = 0 then Some (0, 0)
      else let u = max (binary_exponent a b) (- 1022) - 52;
               m = (if 0 \<le> u then round_half_even a (b * 2 ^ nat u)
                    else round_half_even (a * 2 ^ nat (- u)) b)
           in if 971 < u \<or> (u = 971 \<and> 2 ^ 53 \<le> m) then None else Some (m, u))"

definition integer_value :: "(int \<times> int) option \<Rightarrow> int option" where
  "integer_value d =
     (case d of
        None \<Rightarrow> None
      | Some (m, u) \<Rightarrow>
          if 0 \<le> u then Some (m * 2 ^ nat u)
          else if 2 ^ nat (- u) dvd m then Some (m div 2 ^ nat (- u))
          else None)"

definition double_of_decimal :: "int \<Rightarrow> int \<Rightarrow> int option" where
  "double_of_decimal m scale =
     integer_value (if 0 \<le> scale then to_double (m * 10 ^ nat scale) 1
                    else to_double m (10 ^ nat (- scale)))"

definition rounds_to :: "int \<Rightarrow> int \<Rightarrow> bool" where
  "rounds_to v x = (double_of_decimal v 0 = Some x)"

definition js_number :: "int \<Rightarrow> bool" where
  "js_number i = rounds_to \<bar>i\<bar> \<bar>i\<bar>"

section \<open>JSON text of a list of ids\<close>

text \<open>
  \<^verbatim>\<open>JSON.stringify\<close> on an array of numbers: the texts of the numbers, separated by commas,
  between brackets, with no white space. The text of a number is that of \<^verbatim>\<open>Number::toString\<close>:
  the decimal with the fewest significant digits that still rounds to the number (the
  closest one when several do), written in full up to 21 digits and as \<^verbatim>\<open>d.ddde+n\<close> beyond.
  So \<open>2 ^ 64\<close> is written \<^verbatim>\<open>18446744073709552000\<close> and \<open>10 ^ 21\<close> is written \<^verbatim>\<open>1e+21\<close>; below
  \<open>10 ^ 15\<close> the text is the plain numeral (lemma \<open>number_text_small\<close>). \<open>digits\<close> is the
  numeral of a non-negative integer. On an integer that is not a number the search finds
  nothing and the plain numeral is written; no run of the program holds such an id.
\<close>

definition digit_char :: "int \<Rightarrow> char" where
  "digit_char d = char_of (48 + d)"

function digits :: "int \<Rightarrow> string" where
  "digits n = (if n < 10 then [digit_char n] else digits (n div 10) @ [digit_char (n mod 10)])"
  by pat_completeness auto
termination
  by (relation "measure nat") auto

declare digits.simps [simp del]

definition candidate :: "int \<Rightarrow> nat \<Rightarrow> int option" where
  "candidate x z =
     (let p = 10 ^ z; lo = (x div p) * p; hi = lo + p
      in if rounds_to lo x \<and> rounds_to hi x
         then Some (if x - lo < hi - x then lo
                    else if hi - x < x - lo then hi
                    else if even (x div p) then lo else hi)
         else if rounds_to lo x then Some lo
         else if rounds_to hi x then Some hi
         else None)"

definition shortest_decimal :: "int \<Rightarrow> int" where
  "shortest_decimal x =
     (case List.map_filter (candidate x) (rev [0 ..< length (digits x)]) of
        [] \<Rightarrow> x
      | v # _ \<Rightarrow> v)"

definition strip_zeros :: "string \<Rightarrow> string" where
  "strip_zeros ds = rev (dropWhile (\<lambda>c. c = CHR ''0'') (rev ds))"

definition layout :: "int \<Rightarrow> string" where
  "layout v =
     (let ds = digits v; n = length ds
      in if n \<le> 21 then ds
         else (let sig = strip_zeros ds
               in hd sig # (if tl sig = [] then [] else CHR ''.'' # tl sig)
                    @ ''e+'' @ digits (int n - 1)))"

definition number_text :: "int \<Rightarrow> string" where
  "number_text i =
     (if i < 0 then CHR ''-'' # layout (shortest_decimal (- i))
      else layout (shortest_decimal i))"

fun join :: "string list \<Rightarrow> string" where
  "join [] = []"
| "join [x] = x"
| "join (x # y # ys) = x @ CHR '','' # join (y # ys)"

definition JSON_stringify :: "int list \<Rightarrow> string" where
  "JSON_stringify xs = CHR ''['' # join (map number_text xs) @ [CHR '']'']"

text \<open>
  \<^verbatim>\<open>JSON.parse\<close>. The text is cut into tokens (\<open>lex\<close>: JSON white space between tokens;
  strings with their escapes; numbers with fraction and exponent, no leading zero; the three
  literals), the token sequence is checked against the JSON grammar by a pushdown
  recogniser (\<open>accepts\<close>), and the value is classified:
  \<^item> \<open>SyntaxError\<close>: the text is not JSON, \<^verbatim>\<open>JSON.parse\<close> raises;
  \<^item> \<open>IdList ids\<close>: the value is an array of numbers that are integers. A number token is
    converted as the language converts it, by rounding its decimal to a double, so
    \<^verbatim>\<open>[1e2,3.0]\<close> is the list \<open>[100, 3]\<close> and \<^verbatim>\<open>[9007199254740993]\<close> is \<open>[9007199254740992]\<close>;
  \<^item> \<open>OtherValue\<close>: any other value (a number that is no integer, a string, an object, a
    literal, a nested array), which the typed state of the component cannot hold.
\<close>

definition is_json_ws :: "char \<Rightarrow> bool" where
  "is_json_ws c = (c = CHR '' '' \<or> c = CHR 0x09 \<or> c = CHR 0x0A \<or> c = CHR 0x0D)"

definition skip_ws :: "string \<Rightarrow> string" where
  "skip_ws s = dropWhile is_json_ws s"

definition is_digit :: "char \<Rightarrow> bool" where
  "is_digit c = (48 \<le> (of_char c :: int) \<and> (of_char c :: int) \<le> 57)"

definition digit_value :: "char \<Rightarrow> int" where
  "digit_value c = of_char c - 48"

definition numeral_value :: "string \<Rightarrow> int" where
  "numeral_value ds = foldl (\<lambda>a c. 10 * a + digit_value c) 0 ds"

definition parse_fraction :: "string \<Rightarrow> (string \<times> string) option" where
  "parse_fraction s =
     (case s of
        [] \<Rightarrow> Some ([], [])
      | c # cs \<Rightarrow>
          if c = CHR ''.''
          then (if takeWhile is_digit cs = [] then None
                else Some (takeWhile is_digit cs, dropWhile is_digit cs))
          else Some ([], s))"

definition parse_exponent :: "string \<Rightarrow> (int \<times> string) option" where
  "parse_exponent s =
     (case s of
        [] \<Rightarrow> Some (0, [])
      | c # cs \<Rightarrow>
          if c = CHR ''e'' \<or> c = CHR ''E''
          then (case cs of
                  [] \<Rightarrow> None
                | d # ds \<Rightarrow>
                    let es = (if d = CHR ''-'' \<or> d = CHR ''+'' then ds else cs)
                    in if takeWhile is_digit es = [] then None
                       else Some ((if d = CHR ''-'' then - numeral_value (takeWhile is_digit es)
                                   else numeral_value (takeWhile is_digit es)),
                                  dropWhile is_digit es))
          else Some (0, s))"

definition parse_magnitude :: "string \<Rightarrow> (int option \<times> string) option" where
  "parse_magnitude s =
     (let ds = takeWhile is_digit s
      in if ds = [] then None
         else if hd ds = CHR ''0'' \<and> tl ds \<noteq> [] then None
         else (case parse_fraction (dropWhile is_digit s) of
                 None \<Rightarrow> None
               | Some (fs, r) \<Rightarrow>
                   (case parse_exponent r of
                      None \<Rightarrow> None
                    | Some (e, r') \<Rightarrow>
                        Some (double_of_decimal (numeral_value (ds @ fs)) (e - int (length fs)), r'))))"

definition parse_number :: "string \<Rightarrow> (int option \<times> string) option" where
  "parse_number s =
     (case s of
        [] \<Rightarrow> None
      | c # cs \<Rightarrow>
          if c = CHR ''-'' then map_option (\<lambda>(v, r). (map_option uminus v, r)) (parse_magnitude cs)
          else parse_magnitude s)"

definition is_hex :: "char \<Rightarrow> bool" where
  "is_hex c = (is_digit c \<or> (97 \<le> (of_char c :: int) \<and> (of_char c :: int) \<le> 102)
                \<or> (65 \<le> (of_char c :: int) \<and> (of_char c :: int) \<le> 70))"

definition is_escape :: "char \<Rightarrow> bool" where
  "is_escape c = (c = CHR 0x22 \<or> c = CHR 0x5C \<or> c = CHR ''/'' \<or> c = CHR ''b'' \<or> c = CHR ''f''
                  \<or> c = CHR ''n'' \<or> c = CHR ''r'' \<or> c = CHR ''t'')"

function scan_string :: "string \<Rightarrow> string option" where
  "scan_string s =
     (case s of
        [] \<Rightarrow> None
      | c # cs \<Rightarrow>
          if c = CHR 0x22 then Some cs
          else if c = CHR 0x5C then
            (case cs of
               [] \<Rightarrow> None
             | e # es \<Rightarrow>
                 if is_escape e then scan_string es
                 else if e = CHR ''u'' \<and> 4 \<le> length es \<and> list_all is_hex (take 4 es)
                 then scan_string (drop 4 es)
                 else None)
          else if (of_char c :: int) < 32 then None
          else scan_string cs)"
  by pat_completeness auto
termination
  by (relation "measure length") auto

declare scan_string.simps [simp del]

definition scan_literal :: "string \<Rightarrow> string option" where
  "scan_literal s =
     (if take 4 s = ''true'' then Some (drop 4 s)
      else if take 5 s = ''false'' then Some (drop 5 s)
      else if take 4 s = ''null'' then Some (drop 4 s)
      else None)"

datatype token =
    LBracket | RBracket | LBrace | RBrace | Colon | Comma
  | StringTok | NumberTok "int option" | LiteralTok

function lex :: "string \<Rightarrow> token list option" where
  "lex s =
     (case skip_ws s of
        [] \<Rightarrow> Some []
      | c # r \<Rightarrow>
          if c = CHR ''['' then map_option ((#) LBracket) (lex r)
          else if c = CHR '']'' then map_option ((#) RBracket) (lex r)
          else if c = CHR ''{'' then map_option ((#) LBrace) (lex r)
          else if c = CHR ''}'' then map_option ((#) RBrace) (lex r)
          else if c = CHR '':'' then map_option ((#) Colon) (lex r)
          else if c = CHR '','' then map_option ((#) Comma) (lex r)
          else if c = CHR 0x22 then
            (case scan_string r of
               None \<Rightarrow> None
             | Some r' \<Rightarrow> map_option ((#) StringTok) (lex r'))
          else if c = CHR ''-'' \<or> is_digit c then
            (case parse_number (c # r) of
               None \<Rightarrow> None
             | Some (v, r') \<Rightarrow> map_option ((#) (NumberTok v)) (lex r'))
          else
            (case scan_literal (c # r) of
               None \<Rightarrow> None
             | Some r' \<Rightarrow> map_option ((#) LiteralTok) (lex r')))"
  by pat_completeness auto
termination
proof (relation "measure length", goal_cases)
  case 1
  show ?case by simp
next
  case (2 s c r)
  then show ?case
    using length_dropWhile_le [of is_json_ws s] by (simp add: skip_ws_def)
next
  case (3 s c r)
  then show ?case
    using length_dropWhile_le [of is_json_ws s] by (simp add: skip_ws_def)
next
  case (4 s c r)
  then show ?case
    using length_dropWhile_le [of is_json_ws s] by (simp add: skip_ws_def)
next
  case (5 s c r)
  then show ?case
    using length_dropWhile_le [of is_json_ws s] by (simp add: skip_ws_def)
next
  case (6 s c r)
  then show ?case
    using length_dropWhile_le [of is_json_ws s] by (simp add: skip_ws_def)
next
  case (7 s c r)
  then show ?case
    using length_dropWhile_le [of is_json_ws s] by (simp add: skip_ws_def)
next
  case (8 s c r r')
  have scan: "length q \<le> length t" if "scan_string t = Some q" for t q
    using that
  proof (induction t rule: scan_string.induct)
    case (1 t)
    show ?case
    proof (cases t)
      case Nil
      with "1.prems" show ?thesis by (subst (asm) scan_string.simps) simp
    next
      case t: (Cons a u)
      show ?thesis
      proof (cases u)
        case Nil
        with "1.prems" "1.IH" t show ?thesis
          by (subst (asm) scan_string.simps) (auto split: if_splits)
      next
        case (Cons b w)
        with "1.prems" "1.IH" t show ?thesis
          by (subst (asm) scan_string.simps) (fastforce split: if_splits)
      qed
    qed
  qed
  from 8 have "length r' \<le> length r" by (intro scan) simp
  with 8 show ?case
    using length_dropWhile_le [of is_json_ws s] by (simp add: skip_ws_def)
next
  case (9 s c r x v r')
  have drop_le: "length (dropWhile is_digit t) \<le> length t" for t
    by (rule length_dropWhile_le)
  have frac: "length q \<le> length t" if "parse_fraction t = Some (fs, q)" for t fs q
  proof (cases t)
    case Nil
    with that show ?thesis by (simp add: parse_fraction_def)
  next
    case (Cons a u)
    with that drop_le [of u] show ?thesis
      by (auto simp: parse_fraction_def split: if_splits)
  qed
  have expo: "length q \<le> length t" if "parse_exponent t = Some (e, q)" for t e q
  proof (cases t)
    case Nil
    with that show ?thesis by (simp add: parse_exponent_def)
  next
    case t: (Cons a u)
    show ?thesis
    proof (cases u)
      case Nil
      with that t show ?thesis by (auto simp: parse_exponent_def split: if_splits)
    next
      case (Cons b w)
      with that t drop_le [of u] drop_le [of w] show ?thesis
        by (auto simp: parse_exponent_def Let_def split: if_splits)
    qed
  qed
  have mag: "length q < length t" if "parse_magnitude t = Some (n, q)" for t n q
  proof -
    from that obtain fs q1 e where
      ne: "takeWhile is_digit t \<noteq> []" and
      f: "parse_fraction (dropWhile is_digit t) = Some (fs, q1)" and
      e: "parse_exponent q1 = Some (e, q)"
      by (auto simp: parse_magnitude_def Let_def split: if_splits option.splits)
    have "length (takeWhile is_digit t) + length (dropWhile is_digit t) = length t"
      by (metis length_append takeWhile_dropWhile_id)
    with ne have "length (dropWhile is_digit t) < length t"
      by (cases "takeWhile is_digit t") auto
    with frac [OF f] expo [OF e] show ?thesis by simp
  qed
  from 9 have "parse_number (c # r) = Some (v, r')" by simp
  then have "length r' < length (c # r)"
    by (auto simp: parse_number_def split: if_splits dest!: mag)
  with 9 show ?case
    using length_dropWhile_le [of is_json_ws s] by (simp add: skip_ws_def)
next
  case (10 s c r r')
  then have "length r' < length (c # r)"
    by (auto simp: scan_literal_def split: if_splits)
  with 10 show ?case
    using length_dropWhile_le [of is_json_ws s] by (simp add: skip_ws_def)
qed

declare lex.simps [simp del]

datatype expect = Value | ValueOrClose | Member | MemberOrClose | Separator | After

datatype frame = ArrayFrame | ObjectFrame

fun accepts :: "expect \<Rightarrow> frame list \<Rightarrow> token list \<Rightarrow> bool" where
  "accepts e st [] = (e = After \<and> st = [])"
| "accepts e st (t # ts) =
     (case e of
        Value \<Rightarrow>
          (case t of
             LBracket \<Rightarrow> accepts ValueOrClose (ArrayFrame # st) ts
           | LBrace \<Rightarrow> accepts MemberOrClose (ObjectFrame # st) ts
           | StringTok \<Rightarrow> accepts After st ts
           | NumberTok _ \<Rightarrow> accepts After st ts
           | LiteralTok \<Rightarrow> accepts After st ts
           | _ \<Rightarrow> False)
      | ValueOrClose \<Rightarrow>
          (case t of
             LBracket \<Rightarrow> accepts ValueOrClose (ArrayFrame # st) ts
           | LBrace \<Rightarrow> accepts MemberOrClose (ObjectFrame # st) ts
           | StringTok \<Rightarrow> accepts After st ts
           | NumberTok _ \<Rightarrow> accepts After st ts
           | LiteralTok \<Rightarrow> accepts After st ts
           | RBracket \<Rightarrow> accepts After (tl st) ts
           | _ \<Rightarrow> False)
      | Member \<Rightarrow> (case t of StringTok \<Rightarrow> accepts Separator st ts | _ \<Rightarrow> False)
      | MemberOrClose \<Rightarrow>
          (case t of
             StringTok \<Rightarrow> accepts Separator st ts
           | RBrace \<Rightarrow> accepts After (tl st) ts
           | _ \<Rightarrow> False)
      | Separator \<Rightarrow> (case t of Colon \<Rightarrow> accepts Value st ts | _ \<Rightarrow> False)
      | After \<Rightarrow>
          (case st of
             [] \<Rightarrow> False
           | ArrayFrame # st' \<Rightarrow>
               (case t of
                  Comma \<Rightarrow> accepts Value st ts
                | RBracket \<Rightarrow> accepts After st' ts
                | _ \<Rightarrow> False)
           | ObjectFrame # st' \<Rightarrow>
               (case t of
                  Comma \<Rightarrow> accepts Member st ts
                | RBrace \<Rightarrow> accepts After st' ts
                | _ \<Rightarrow> False)))"

fun ids_of :: "token list \<Rightarrow> int list option" where
  "ids_of [] = Some []"
| "ids_of (NumberTok (Some i) # ts) = map_option ((#) i) (ids_of ts)"
| "ids_of (Comma # ts) = ids_of ts"
| "ids_of (_ # ts) = None"

datatype parsed = SyntaxError | IdList "int list" | OtherValue

definition JSON_parse :: "string \<Rightarrow> parsed" where
  "JSON_parse s =
     (case lex s of
        None \<Rightarrow> SyntaxError
      | Some ts \<Rightarrow>
          if \<not> accepts Value [] ts then SyntaxError
          else (case ts of
                  LBracket # rest \<Rightarrow>
                    (case ids_of (butlast rest) of
                       Some ids \<Rightarrow> IdList ids
                     | None \<Rightarrow> OtherValue)
                | _ \<Rightarrow> OtherValue))"

text \<open>
  \<^verbatim>\<open>String.prototype.trim\<close>: strips white space and line terminators from both ends. Among
  the characters below 256 these are tab, line feed, vertical tab, form feed, carriage
  return, space and the no-break space.
\<close>

definition is_js_ws :: "char \<Rightarrow> bool" where
  "is_js_ws c = (c = CHR 0x09 \<or> c = CHR 0x0A \<or> c = CHR 0x0B \<or> c = CHR 0x0C \<or> c = CHR 0x0D
                 \<or> c = CHR 0x20 \<or> c = CHR 0xA0)"

definition trim :: "string \<Rightarrow> string" where
  "trim s = rev (dropWhile is_js_ws (rev (dropWhile is_js_ws s)))"

section \<open>Handlers\<close>

subsection \<open>The favorites store\<close>

text \<open>
  The store is not a module of the source: its three operations are statements inside the
  handlers. \<open>saveFavorites\<close> is the write in \<^verbatim>\<open>toggleFavorite\<close>
  (\<^verbatim>\<open>AsyncStorage.setItem(FAVORITES_KEY, JSON.stringify(newFavorites))\<close>), \<open>clearFavorites\<close> the
  delete in the confirm callback of \<^verbatim>\<open>clearAllFavorites\<close>, and \<open>loadFavorites\<close> step B of
  \<^verbatim>\<open>loadData\<close>: read the key and, if the value is truthy (neither \<^verbatim>\<open>null\<close> nor the empty
  string), parse it and hand the value to \<^verbatim>\<open>setFavorites\<close>. A rejected read and a text that
  does not parse both raise. When the value is not a list of integers the code hands it over
  all the same: the model, whose favorites are typed as the source declares them, records
  the call and leaves the field, which from then on no longer describes the component.
\<close>

definition saveFavorites :: "bool \<Rightarrow> int list \<Rightarrow> state \<times> world \<Rightarrow> unit outcome \<times> state \<times> world" where
  "saveFavorites setItem_ok ids c = AsyncStorage_setItem setItem_ok FAVORITES_KEY (JSON_stringify ids) c"

definition clearFavorites :: "bool \<Rightarrow> state \<times> world \<Rightarrow> unit outcome \<times> state \<times> world" where
  "clearFavorites removeItem_ok c = AsyncStorage_removeItem removeItem_ok FAVORITES_KEY c"

definition loadFavorites :: "bool \<Rightarrow> state \<times> world \<Rightarrow> unit outcome \<times> state \<times> world" where
  "loadFavorites getItem_ok c =
     (case AsyncStorage_getItem getItem_ok FAVORITES_KEY c of
        (Rejected, c1) \<Rightarrow> (Rejected, c1)
      | (Resolved storedFavs, c1) \<Rightarrow>
          (case storedFavs of
             None \<Rightarrow> (Resolved (), c1)
           | Some text \<Rightarrow>
               if text = [] then (Resolved (), c1)
               else (case JSON_parse text of
                       SyntaxError \<Rightarrow> (Rejected, c1)
                     | IdList favs \<Rightarrow> (Resolved (), setFavorites favs c1)
                     | OtherValue \<Rightarrow> (Resolved (), fst c1, emit SetFavoritesOther (snd c1)))))"

subsection \<open>loadData\<close>

text \<open>The first argument is the answer to the GET, the second says whether the storage read
  resolves. The \<^verbatim>\<open>catch\<close> block alerts and logs; the \<^verbatim>\<open>finally\<close> block runs on every path.\<close>

definition loadData :: "user list outcome \<Rightarrow> bool \<Rightarrow> state \<times> world \<Rightarrow> state \<times> world" where
  "loadData response getItem_ok c =
     (let c1 = setIsLoading True c;
          c2 = (case axios_get response c1 of
                  (Rejected, c') \<Rightarrow> console_error LoadError (Alert_alert LoadFailure c')
                | (Resolved data, c') \<Rightarrow>
                    (case loadFavorites getItem_ok (setUsers data c') of
                       (Rejected, c'') \<Rightarrow> console_error LoadError (Alert_alert LoadFailure c'')
                     | (Resolved _, c'') \<Rightarrow> c''))
      in setIsLoading False c2)"

subsection \<open>toggleFavorite\<close>

text \<open>The flag says whether the storage write resolves.\<close>

definition toggleFavorite :: "bool \<Rightarrow> int \<Rightarrow> state \<times> world \<Rightarrow> state \<times> world" where
  "toggleFavorite setItem_ok userId c =
     (let newFavorites =
            (if includes_list (favorites (fst c)) userId
             then filter (\<lambda>i. i \<noteq> userId) (favorites (fst c))
             else favorites (fst c) @ [userId]);
          c1 = setFavorites newFavorites c
      in case saveFavorites setItem_ok newFavorites c1 of
           (Resolved _, c2) \<Rightarrow> c2
         | (Rejected, c2) \<Rightarrow> console_error SaveError c2)"

text \<open>A run of taps: each call sees the state the previous one committed. Every call comes
  with the outcome of its own storage write.\<close>

fun toggleFavorites :: "(bool \<times> int) list \<Rightarrow> state \<times> world \<Rightarrow> state \<times> world" where
  "toggleFavorites [] c = c"
| "toggleFavorites ((ok, userId) # rest) c = toggleFavorites rest (toggleFavorite ok userId c)"

subsection \<open>clearAllFavorites\<close>

text \<open>
  The handler only opens the dialog: the \<^verbatim>\<open>try\<close> block holds the single call
  \<^verbatim>\<open>Alert.alert(..., [Annuler, Effacer])\<close>, which returns at once, and the \<^verbatim>\<open>catch\<close> block is
  entered only if that call raises (the flag). The deletion happens later, in the
  asynchronous \<^verbatim>\<open>onPress\<close> callback of the button "Effacer", outside the \<^verbatim>\<open>try\<close>: a rejection
  of \<^verbatim>\<open>removeItem\<close> there rejects the callback's own promise, which nobody awaits. The
  button "Annuler" has no callback.
\<close>

definition clearAllFavorites :: "bool \<Rightarrow> state \<times> world \<Rightarrow> state \<times> world" where
  "clearAllFavorites alert_ok c =
     (if alert_ok then Alert_alert ClearConfirmation c
      else Alert_alert ClearFailure (console_error ClearError c))"

definition onPress_Effacer :: "bool \<Rightarrow> state \<times> world \<Rightarrow> state \<times> world" where
  "onPress_Effacer removeItem_ok c =
     (case clearFavorites removeItem_ok c of
        (Rejected, c1) \<Rightarrow> (fst c1, emit UnhandledRejection (snd c1))
      | (Resolved _, c1) \<Rightarrow> Alert_alert ClearSuccess (setFavorites [] c1))"

fun press :: "choice \<Rightarrow> bool \<Rightarrow> state \<times> world \<Rightarrow> state \<times> world" where
  "press Annuler removeItem_ok c = c"
| "press Effacer removeItem_ok c = onPress_Effacer removeItem_ok c"

subsection \<open>addUser\<close>

text \<open>The argument is the answer to the POST. The form fields are read from the state; the
  body of the request carries them as typed, not trimmed.\<close>

definition addUser :: "user outcome \<Rightarrow> state \<times> world \<Rightarrow> state \<times> world" where
  "addUser response c =
     (if trim (newUserName (fst c)) = [] \<or> trim (newUserEmail (fst c)) = []
      then Alert_alert ValidationFailure c
      else (case axios_post response (newUserName (fst c)) (newUserEmail (fst c)) c of
              (Rejected, c1) \<Rightarrow> Alert_alert AddFailure (console_error AddError c1)
            | (Resolved newUser, c1) \<Rightarrow>
                Alert_alert (AddSuccess (name newUser) (id_user newUser))
                  (setNewUserEmail []
                    (setNewUserName []
                      (setUsers (newUser # users (fst c)) c1)))))"

subsection \<open>getFilteredUsers\<close>

definition getFilteredUsers :: "state \<Rightarrow> user list" where
  "getFilteredUsers s =
     (if showOnlyFavorites s
      then filter (\<lambda>user. includes_list (favorites s) (id_user user)) (users s)
      else users s)"

section \<open>Observations and sample data\<close>

text \<open>The events a run appended to the trace: what is in the trace after it, past what
  was there before it.\<close>

definition emitted :: "state \<times> world \<Rightarrow> state \<times> world \<Rightarrow> event list" where
  "emitted c c' = drop (length (trace (snd c))) (trace (snd c'))"

definition fresh_world :: world where
  "fresh_world = \<lparr>storage = Map.empty, trace = []\<rparr>"

definition jane :: user where
  "jane = \<lparr>id_user = 11, name = ''Jane'', email = ''jane@x.com''\<rparr>"

definition leanne :: user where
  "leanne = \<lparr>id_user = 1, name = ''Leanne Graham'', email = ''Sincere@april.biz''\<rparr>"

definition ervin :: user where
  "ervin = \<lparr>id_user = 2, name = ''Ervin Howell'', email = ''Shanna@melissa.tv''\<rparr>"

definition clementine :: user where
  "clementine = \<lparr>id_user = 3, name = ''Clementine Bauch'', email = ''Nathan@yesenia.net''\<rparr>"

section \<open>Properties\<close>

lemmas effect_defs =
  emit_def Alert_alert_def console_error_def setUsers_def setFavorites_def setIsLoading_def
  setNewUserName_def setNewUserEmail_def AsyncStorage_getItem_def AsyncStorage_setItem_def
  AsyncStorage_removeItem_def axios_get_def axios_post_def emitted_def

subsection \<open>Array search\<close>

lemma includes_iff: "includes_list xs x \<longleftrightarrow> x \<in> set xs"
  by (induction xs) auto

subsection \<open>Numerals\<close>

lemma of_char_digit_char: "0 \<le> d \<Longrightarrow> d < 10 \<Longrightarrow> (of_char (digit_char d) :: int) = 48 + d"
  by (simp add: digit_char_def)

lemma is_digit_digit_char: "0 \<le> d \<Longrightarrow> d < 10 \<Longrightarrow> is_digit (digit_char d)"
  by (simp add: is_digit_def of_char_digit_char)

lemma digit_value_digit_char: "0 \<le> d \<Longrightarrow> d < 10 \<Longrightarrow> digit_value (digit_char d) = d"
  by (simp add: digit_value_def of_char_digit_char)

lemma digit_char_eq_zero: "0 \<le> d \<Longrightarrow> d < 10 \<Longrightarrow> digit_char d = CHR ''0'' \<Longrightarrow> d = 0"
proof -
  assume d: "0 \<le> d" "d < 10" and "digit_char d = CHR ''0''"
  then have "(of_char (digit_char d) :: int) = of_char (CHR ''0'')" by simp
  with d show "d = 0" by (simp add: of_char_digit_char)
qed

lemma digits_nonempty: "digits n \<noteq> []"
  by (subst digits.simps) simp

lemma digits_all_digit: "0 \<le> n \<Longrightarrow> c \<in> set (digits n) \<Longrightarrow> is_digit c"
proof (induction n arbitrary: c rule: digits.induct)
  case (1 n)
  show ?case
  proof (cases "n < 10")
    case True
    with "1.prems" show ?thesis
      by (subst (asm) digits.simps) (simp add: is_digit_digit_char)
  next
    case False
    with "1.prems" "1.IH" show ?thesis
      by (subst (asm) digits.simps) (auto simp: is_digit_digit_char)
  qed
qed

lemma numeral_value_snoc:
  "numeral_value (ds @ [c]) = 10 * numeral_value ds + digit_value c"
  by (simp add: numeral_value_def)

lemma numeral_value_digits: "0 \<le> n \<Longrightarrow> numeral_value (digits n) = n"
proof (induction n rule: digits.induct)
  case (1 n)
  show ?case
  proof (cases "n < 10")
    case True
    with "1.prems" show ?thesis
      by (subst digits.simps) (simp add: numeral_value_def digit_value_digit_char)
  next
    case False
    with "1.IH" "1.prems" show ?thesis
      by (subst digits.simps) (simp add: numeral_value_snoc digit_value_digit_char)
  qed
qed

lemma digits_leading_zero: "0 \<le> n \<Longrightarrow> hd (digits n) = CHR ''0'' \<Longrightarrow> n = 0"
proof (induction n rule: digits.induct)
  case (1 n)
  show ?case
  proof (cases "n < 10")
    case True
    with "1.prems" show ?thesis
      by (subst (asm) digits.simps) (simp add: digit_char_eq_zero)
  next
    case False
    with "1.prems" have "hd (digits (n div 10)) = CHR ''0''"
      by (subst (asm) digits.simps) (simp add: digits_nonempty)
    with False "1.IH" "1.prems" have "n div 10 = 0" by simp
    with False "1.prems" show ?thesis by simp
  qed
qed

lemma char_of_48: "char_of (48::int) = CHR ''0''"
  by (rule of_char_eqI [where ?'a = int]) simp

lemma digits_zero: "digits 0 = [CHR ''0'']"
  by (subst digits.simps) (simp add: digit_char_def char_of_48)

lemma length_digits_le: "0 < k \<Longrightarrow> n < 10 ^ k \<Longrightarrow> length (digits n) \<le> k"
proof (induction n arbitrary: k rule: digits.induct)
  case (1 n)
  show ?case
  proof (cases "n < 10")
    case True
    with "1.prems" show ?thesis by (subst digits.simps) simp
  next
    case False
    from "1.prems" obtain j where k: "k = Suc j" by (cases k) auto
    have j: "0 < j"
    proof (rule ccontr)
      assume "\<not> 0 < j"
      with k "1.prems" False show False by simp
    qed
    from "1.prems" k have "n div 10 < 10 ^ j" by simp
    with False j "1.IH" have "length (digits (n div 10)) \<le> j" by simp
    with False k show ?thesis by (subst digits.simps) simp
  qed
qed

subsection \<open>Exact doubles\<close>

lemma bit_length_le: "a < 2 ^ n \<Longrightarrow> bit_length a \<le> int n"
proof (induction n arbitrary: a)
  case 0
  then show ?case by (subst bit_length.simps) simp
next
  case (Suc n)
  show ?case
  proof (cases "a \<le> 0")
    case True
    then show ?thesis by (subst bit_length.simps) simp
  next
    case False
    from Suc.prems have "a div 2 < 2 ^ n" by simp
    then have "bit_length (a div 2) \<le> int n" by (rule Suc.IH)
    with False show ?thesis by (subst bit_length.simps) simp
  qed
qed

lemma bit_length_1: "bit_length 1 = 1"
  by (subst bit_length.simps, subst bit_length.simps) simp

lemma round_half_even_1: "round_half_even x 1 = x"
  by (simp add: round_half_even_def)

lemma binary_exponent_le: "binary_exponent a b \<le> bit_length a - bit_length b"
  by (simp add: binary_exponent_def Let_def)

lemma double_of_decimal_exact:
  assumes "0 \<le> a" and "a < 2 ^ 53"
  shows "double_of_decimal a 0 = Some a"
proof (cases "a = 0")
  case True
  then show ?thesis by (simp add: double_of_decimal_def to_double_def integer_value_def)
next
  case False
  define u where "u = max (binary_exponent a 1) (- 1022) - 52"
  have "binary_exponent a 1 \<le> 52"
    using binary_exponent_le [of a 1] bit_length_le [OF assms(2)] by (simp add: bit_length_1)
  then have u: "u \<le> 0" by (simp add: u_def)
  have "to_double a 1 = Some (a * 2 ^ nat (- u), u)"
    using False u by (auto simp: to_double_def Let_def u_def [symmetric] round_half_even_1)
  with u show ?thesis
    by (auto simp: double_of_decimal_def integer_value_def)
qed

lemma js_number_safe: "\<bar>i\<bar> < 2 ^ 53 \<Longrightarrow> js_number i"
  by (simp add: js_number_def rounds_to_def double_of_decimal_exact)


subsection \<open>Shortest decimal\<close>

lemma candidate_sound: "candidate x z = Some v \<Longrightarrow> rounds_to v x"
  by (auto simp: candidate_def Let_def split: if_splits)

lemma candidate_nonneg:
  assumes "0 \<le> x" and "candidate x z = Some v"
  shows "0 \<le> v"
proof -
  have "0 \<le> x div 10 ^ z" using assms(1) by (simp add: pos_imp_zdiv_nonneg_iff)
  then have "0 \<le> x div 10 ^ z * 10 ^ z" by simp
  with assms(2) show ?thesis
    by (auto simp: candidate_def Let_def split: if_splits)
qed

lemma shortest_decimal_cases:
  "shortest_decimal x = x
   \<or> (\<exists>z < length (digits x). candidate x z = Some (shortest_decimal x))"
proof (cases "List.map_filter (candidate x) (rev [0 ..< length (digits x)])")
  case Nil
  then show ?thesis by (simp add: shortest_decimal_def)
next
  case (Cons v vs)
  then have "v \<in> set (List.map_filter (candidate x) (rev [0 ..< length (digits x)]))" by simp
  then obtain z where "z < length (digits x)" and "candidate x z = Some v"
    by (auto simp: List.map_filter_def)
  with Cons show ?thesis by (auto simp: shortest_decimal_def)
qed

lemma shortest_decimal_sound: "rounds_to x x \<Longrightarrow> rounds_to (shortest_decimal x) x"
  using shortest_decimal_cases [of x] by (auto dest: candidate_sound)

lemma shortest_decimal_nonneg: "0 \<le> x \<Longrightarrow> 0 \<le> shortest_decimal x"
  using shortest_decimal_cases [of x] by (auto dest: candidate_nonneg)

lemma candidate_small:
  assumes x: "0 \<le> x" "x < 10 ^ 15" and z: "z < 15" and c: "candidate x z = Some v"
  shows "v = x"
proof -
  define p :: int where "p = 10 ^ z"
  define lo where "lo = (x div p) * p"
  have p: "0 < p" by (simp add: p_def)
  have "p \<le> 10 ^ 14" unfolding p_def using z by (intro power_increasing) auto
  have lo: "0 \<le> lo" "lo \<le> x" "x < lo + p"
  proof -
    have "0 \<le> x div p" using x p by (simp add: pos_imp_zdiv_nonneg_iff)
    then show "0 \<le> lo" using p by (simp add: lo_def)
    have "x = lo + x mod p" by (simp add: lo_def)
    moreover have "0 \<le> x mod p" "x mod p < p" using p by simp_all
    ultimately show "lo \<le> x" "x < lo + p" by linarith+
  qed
  have small: "lo < 2 ^ 53" "lo + p < 2 ^ 53" using lo x \<open>p \<le> 10 ^ 14\<close> by simp_all
  have l: "rounds_to lo x \<longleftrightarrow> lo = x"
    using double_of_decimal_exact [OF lo(1) small(1)] by (auto simp: rounds_to_def)
  have h: "\<not> rounds_to (lo + p) x"
    using double_of_decimal_exact [of "lo + p"] small(2) lo p by (auto simp: rounds_to_def)
  from c show ?thesis
    unfolding candidate_def Let_def p_def [symmetric] lo_def [symmetric]
    using l h by (auto split: if_splits)
qed

lemma shortest_decimal_small:
  assumes "0 \<le> x" and "x < 10 ^ 15"
  shows "shortest_decimal x = x"
proof -
  have "length (digits x) \<le> 15" using assms(2) by (intro length_digits_le) simp_all
  with shortest_decimal_cases [of x] candidate_small [OF assms] show ?thesis
    by (metis less_le_trans)
qed

lemma layout_short: "length (digits v) \<le> 21 \<Longrightarrow> layout v = digits v"
  by (simp add: layout_def Let_def)

lemma number_text_small:
  assumes "\<bar>i\<bar> < 10 ^ 15"
  shows "number_text i = (if i < 0 then CHR ''-'' # digits (- i) else digits i)"
proof -
  have len: "length (digits \<bar>i\<bar>) \<le> 21"
    using length_digits_le [of 15 "\<bar>i\<bar>"] assms by simp
  have "shortest_decimal \<bar>i\<bar> = \<bar>i\<bar>"
    using assms by (intro shortest_decimal_small) simp_all
  with len show ?thesis
    by (cases "i < 0") (simp_all add: number_text_def layout_short)
qed


subsection \<open>Reading back a written number\<close>

definition stops :: "string \<Rightarrow> bool" where
  "stops r = (r = [] \<or> (hd r = CHR '','' \<or> hd r = CHR '']''))"

lemma stops_simps:
  assumes "stops r"
  shows "takeWhile is_digit r = []" and "dropWhile is_digit r = r"
    and "parse_fraction r = Some ([], r)" and "parse_exponent r = Some (0, r)"
  using assms
  by (cases r; auto simp: stops_def is_digit_def parse_fraction_def parse_exponent_def)+

lemma takeWhile_digits: "0 \<le> n \<Longrightarrow> \<not> is_digit c \<Longrightarrow> takeWhile is_digit (digits n @ c # r) = digits n"
  by (simp add: digits_all_digit)

lemma dropWhile_digits: "0 \<le> n \<Longrightarrow> \<not> is_digit c \<Longrightarrow> dropWhile is_digit (digits n @ c # r) = c # r"
  by (simp add: digits_all_digit)

lemma takeWhile_digits_stops: "0 \<le> n \<Longrightarrow> stops r \<Longrightarrow> takeWhile is_digit (digits n @ r) = digits n"
  by (simp add: digits_all_digit stops_simps)

lemma dropWhile_digits_stops: "0 \<le> n \<Longrightarrow> stops r \<Longrightarrow> dropWhile is_digit (digits n @ r) = r"
  by (simp add: digits_all_digit stops_simps)

lemma no_leading_zero: "0 \<le> n \<Longrightarrow> \<not> (hd (digits n) = CHR ''0'' \<and> tl (digits n) \<noteq> [])"
  using digits_leading_zero [of n] by (auto simp: digits_zero)

lemma double_of_decimal_scale:
  "0 \<le> s \<Longrightarrow> double_of_decimal m s = double_of_decimal (m * 10 ^ nat s) 0"
  by (simp add: double_of_decimal_def)

lemma numeral_value_zeros:
  "numeral_value (xs @ replicate m (CHR ''0'')) = numeral_value xs * 10 ^ m"
proof (induction m)
  case 0
  show ?case by simp
next
  case (Suc m)
  have "xs @ replicate (Suc m) (CHR ''0'') = (xs @ replicate m (CHR ''0'')) @ [CHR ''0'']"
    by (simp add: replicate_append_same)
  then show ?case
    using Suc by (simp only: numeral_value_snoc) (simp add: digit_value_def)
qed

lemma strip_zeros_split:
  "ds = strip_zeros ds @ replicate (length ds - length (strip_zeros ds)) (CHR ''0'')"
proof -
  let ?P = "\<lambda>c. c = CHR ''0''"
  let ?t = "takeWhile ?P (rev ds)"
  have "ds = rev (dropWhile ?P (rev ds)) @ rev ?t"
    by (metis rev_append rev_rev_ident takeWhile_dropWhile_id)
  then have ds: "ds = strip_zeros ds @ rev ?t" by (simp add: strip_zeros_def)
  have "\<forall>c\<in>set ?t. c = CHR ''0''" by (auto dest: set_takeWhileD)
  then have "replicate (length ?t) (CHR ''0'') = ?t" by (rule replicate_length_same)
  then have t: "rev ?t = replicate (length ?t) (CHR ''0'')" by (metis rev_replicate)
  from ds have "length ds = length (strip_zeros ds) + length ?t"
    by (metis length_append length_rev)
  with ds t show ?thesis by simp
qed

lemma strip_zeros_nonempty: "ds \<noteq> [] \<Longrightarrow> hd ds \<noteq> CHR ''0'' \<Longrightarrow> strip_zeros ds \<noteq> []"
proof
  assume ds: "ds \<noteq> []" "hd ds \<noteq> CHR ''0''" and "strip_zeros ds = []"
  then have "\<forall>c\<in>set ds. c = CHR ''0''" by (simp add: strip_zeros_def)
  with ds show False by (cases ds) auto
qed

lemma set_strip_zeros: "set (strip_zeros ds) \<subseteq> set ds"
  by (auto simp: strip_zeros_def dest: set_dropWhileD)

lemma layout_long:
  assumes v: "0 \<le> v" and long: "21 < length (digits v)"
  obtains d fs where
    "layout v = d # (if fs = [] then [] else CHR ''.'' # fs) @ ''e+'' @ digits (int (length (digits v)) - 1)"
    "is_digit d" "\<forall>c\<in>set fs. is_digit c"
    "numeral_value (d # fs) * 10 ^ (length (digits v) - Suc (length fs)) = v"
    "length fs < length (digits v)"
proof -
  let ?ds = "digits v" and ?sig = "strip_zeros (digits v)"
  have "v \<noteq> 0" using long by (auto simp: digits_zero)
  then have "hd ?ds \<noteq> CHR ''0''" using digits_leading_zero [OF v] by auto
  then have "?sig \<noteq> []" by (intro strip_zeros_nonempty) (simp_all add: digits_nonempty)
  then obtain d fs where sig: "?sig = d # fs" by (cases ?sig) auto
  have dig: "\<forall>c\<in>set (d # fs). is_digit c"
    using set_strip_zeros [of ?ds] digits_all_digit [OF v] by (auto simp: sig [symmetric])
  have split: "?ds = (d # fs) @ replicate (length ?ds - length (d # fs)) (CHR ''0'')"
    using strip_zeros_split [of ?ds] by (simp add: sig)
  then have "length (d # fs) \<le> length ?ds" by (metis le_add1 length_append)
  then have len: "length fs < length ?ds" by simp
  have "numeral_value ?ds = numeral_value (d # fs) * 10 ^ (length ?ds - length (d # fs))"
    by (subst split) (rule numeral_value_zeros)
  then have val: "numeral_value (d # fs) * 10 ^ (length ?ds - Suc (length fs)) = v"
    by (simp add: numeral_value_digits [OF v])
  have "layout v = d # (if fs = [] then [] else CHR ''.'' # fs) @ ''e+'' @ digits (int (length ?ds) - 1)"
    using long by (simp add: layout_def Let_def sig)
  with dig val len show ?thesis by (intro that [of d fs]) auto
qed

lemma parse_exponent_written:
  assumes "0 \<le> n" and "stops r"
  shows "parse_exponent (''e+'' @ digits n @ r) = Some (n, r)"
  using assms
  by (simp add: parse_exponent_def Let_def takeWhile_digits_stops dropWhile_digits_stops
        digits_nonempty numeral_value_digits)

lemma parse_magnitude_layout:
  assumes v: "0 \<le> v" and r: "stops r"
  shows "parse_magnitude (layout v @ r) = Some (double_of_decimal v 0, r)"
proof (cases "length (digits v) \<le> 21")
  case True
  have lead: "(hd (digits v) = CHR ''0'' \<and> tl (digits v) \<noteq> []) = False"
    using no_leading_zero [OF v] by simp
  from True show ?thesis
    by (simp add: layout_short parse_magnitude_def Let_def takeWhile_digits_stops
          dropWhile_digits_stops v r stops_simps digits_nonempty numeral_value_digits lead)
next
  case False
  then have long: "21 < length (digits v)" by simp
  from v long obtain d fs where
    lay: "layout v = d # (if fs = [] then [] else CHR ''.'' # fs) @ ''e+'' @ digits (int (length (digits v)) - 1)"
    and d: "is_digit d" and fs: "\<forall>c\<in>set fs. is_digit c"
    and val: "numeral_value (d # fs) * 10 ^ (length (digits v) - Suc (length fs)) = v"
    and len: "length fs < length (digits v)"
    by (rule layout_long)
  let ?n = "int (length (digits v)) - 1"
  define e where "e = CHR ''e'' # CHR ''+'' # digits ?n @ r"
  have n: "0 \<le> ?n" using long by (simp add: digits_nonempty)
  have ex: "parse_exponent e = Some (?n, r)"
    using parse_exponent_written [OF n r] by (simp add: e_def)
  have e: "takeWhile is_digit e = []" "dropWhile is_digit e = e" "parse_fraction e = Some ([], e)"
    by (simp_all add: e_def is_digit_def parse_fraction_def)
  have dot: "\<not> is_digit (CHR ''.'')" by (simp add: is_digit_def)
  have lay': "layout v @ r = d # (if fs = [] then e else CHR ''.'' # fs @ e)"
    by (simp add: lay e_def)
  have tk: "takeWhile is_digit (layout v @ r) = [d]"
    using d dot e by (simp add: lay')
  have dr: "dropWhile is_digit (layout v @ r) = (if fs = [] then e else CHR ''.'' # fs @ e)"
    using d dot e by (simp add: lay')
  have fr: "parse_fraction (if fs = [] then e else CHR ''.'' # fs @ e) = Some (fs, e)"
    using fs e by (cases fs) (simp_all add: parse_fraction_def)
  have scale: "nat (?n - int (length fs)) = length (digits v) - Suc (length fs)" "0 \<le> ?n - int (length fs)"
    using len by simp_all
  have "double_of_decimal (numeral_value (d # fs)) (?n - int (length fs)) = double_of_decimal v 0"
    by (subst double_of_decimal_scale [OF scale(2)]) (simp add: scale(1) val)
  then show ?thesis
    unfolding parse_magnitude_def Let_def tk dr fr by (simp add: ex)
qed

lemma layout_nonempty: "layout v \<noteq> []"
  by (simp add: layout_def Let_def digits_nonempty)

lemma hd_layout_digit: "0 \<le> v \<Longrightarrow> is_digit (hd (layout v))"
proof (cases "length (digits v) \<le> 21")
  case True
  assume "0 \<le> v"
  then show ?thesis
    using True digits_all_digit [of v "hd (digits v)"] by (simp add: layout_short digits_nonempty)
next
  case False
  assume v: "0 \<le> v"
  from False have "21 < length (digits v)" by simp
  with v obtain d fs where
    "layout v = d # (if fs = [] then [] else CHR ''.'' # fs) @ ''e+'' @ digits (int (length (digits v)) - 1)"
    and "is_digit d"
    by (rule layout_long)
  then show ?thesis by simp
qed

lemma parse_number_text:
  assumes i: "js_number i" and r: "stops r"
  shows "parse_number (number_text i @ r) = Some (Some i, r)"
proof (cases "i < 0")
  case True
  then have rt: "rounds_to (- i) (- i)" using i by (simp add: js_number_def)
  have v: "0 \<le> shortest_decimal (- i)" using True by (intro shortest_decimal_nonneg) simp
  have "double_of_decimal (shortest_decimal (- i)) 0 = Some (- i)"
    using shortest_decimal_sound [OF rt] by (simp add: rounds_to_def)
  then show ?thesis
    using True by (simp add: parse_number_def number_text_def parse_magnitude_layout [OF v r])
next
  case False
  then have rt: "rounds_to i i" using i by (simp add: js_number_def)
  have v: "0 \<le> shortest_decimal i" using False by (intro shortest_decimal_nonneg) simp
  have val: "double_of_decimal (shortest_decimal i) 0 = Some i"
    using shortest_decimal_sound [OF rt] by (simp add: rounds_to_def)
  obtain c cs where cs: "layout (shortest_decimal i) = c # cs"
    using layout_nonempty [of "shortest_decimal i"] by (cases "layout (shortest_decimal i)") auto
  have "is_digit c" using hd_layout_digit [OF v] by (simp add: cs)
  then have "c \<noteq> CHR ''-''" by (auto simp: is_digit_def)
  moreover have "parse_magnitude ((c # cs) @ r) = Some (Some i, r)"
    using parse_magnitude_layout [OF v r] by (simp add: cs val)
  ultimately show ?thesis
    using False by (simp add: parse_number_def number_text_def cs)
qed

lemma hd_number_text: "hd (number_text i) = CHR ''-'' \<or> is_digit (hd (number_text i))"
proof (cases "i < 0")
  case True
  then show ?thesis by (simp add: number_text_def)
next
  case False
  then have "0 \<le> shortest_decimal i" by (intro shortest_decimal_nonneg) simp
  then show ?thesis using False by (simp add: number_text_def hd_layout_digit)
qed

lemma number_text_nonempty: "number_text i \<noteq> []"
  by (simp add: number_text_def layout_nonempty)

lemma skip_ws_number_text: "skip_ws (number_text i @ r) = number_text i @ r"
  using hd_number_text [of i] number_text_nonempty [of i]
  by (cases "number_text i") (auto simp: skip_ws_def is_json_ws_def is_digit_def)

lemma hd_number_text_not_close: "hd (number_text i) \<noteq> CHR '']''"
  using hd_number_text [of i] by (auto simp: is_digit_def)


subsection \<open>Reading back a written list\<close>

lemma join_number_texts:
  "join (map f (x # xs)) = f x @ concat (map (\<lambda>y. CHR '','' # f y) xs)"
  by (induction xs arbitrary: x) simp_all

lemma lex_empty: "lex [] = Some []"
  by (subst lex.simps) (simp add: skip_ws_def)

lemma lex_open: "lex (CHR ''['' # r) = map_option ((#) LBracket) (lex r)"
  by (subst lex.simps) (simp add: skip_ws_def is_json_ws_def)

lemma lex_close: "lex (CHR '']'' # r) = map_option ((#) RBracket) (lex r)"
  by (subst lex.simps) (simp add: skip_ws_def is_json_ws_def)

lemma lex_comma: "lex (CHR '','' # r) = map_option ((#) Comma) (lex r)"
  by (subst lex.simps) (simp add: skip_ws_def is_json_ws_def)

lemma lex_number_text:
  assumes i: "js_number i" and r: "stops r"
  shows "lex (number_text i @ r) = map_option ((#) (NumberTok (Some i))) (lex r)"
proof -
  obtain c cs where cs: "number_text i = c # cs"
    using number_text_nonempty [of i] by (cases "number_text i") auto
  have c: "c = CHR ''-'' \<or> is_digit c" using hd_number_text [of i] by (simp add: cs)
  then have punct: "c \<noteq> CHR ''[''" "c \<noteq> CHR '']''" "c \<noteq> CHR ''{''" "c \<noteq> CHR ''}''"
    "c \<noteq> CHR '':''" "c \<noteq> CHR '',''" "c \<noteq> CHR 0x22"
    by (auto simp: is_digit_def)
  have ws: "skip_ws (c # cs @ r) = c # cs @ r"
    using skip_ws_number_text [of i r] by (simp add: cs)
  have num: "parse_number (c # cs @ r) = Some (Some i, r)"
    using parse_number_text [OF i r] by (simp add: cs)
  show ?thesis
    unfolding cs by (subst lex.simps) (simp add: ws punct c num)
qed

lemma stops_tail: "stops (concat (map (\<lambda>y. CHR '','' # f y) xs) @ [CHR '']''])"
  by (cases xs) (simp_all add: stops_def)

lemma lex_tail:
  "\<forall>i\<in>set xs. js_number i \<Longrightarrow>
   lex (concat (map (\<lambda>y. CHR '','' # number_text y) xs) @ [CHR '']''])
     = Some (concat (map (\<lambda>y. [Comma, NumberTok (Some y)]) xs) @ [RBracket])"
proof (induction xs)
  case Nil
  show ?case by (simp add: lex_close lex_empty)
next
  case (Cons y ys)
  then show ?case
    by (simp add: lex_comma lex_number_text stops_tail)
qed

lemma lex_JSON_stringify:
  assumes "\<forall>i\<in>set ids. js_number i"
  shows "lex (JSON_stringify ids) =
           Some (LBracket # (case ids of
                    [] \<Rightarrow> [RBracket]
                  | x # xs \<Rightarrow> NumberTok (Some x)
                      # concat (map (\<lambda>y. [Comma, NumberTok (Some y)]) xs) @ [RBracket]))"
proof (cases ids)
  case Nil
  then show ?thesis by (simp add: JSON_stringify_def lex_open lex_close lex_empty)
next
  case (Cons x xs)
  with assms have x: "js_number x" and xs: "\<forall>i\<in>set xs. js_number i" by simp_all
  have "JSON_stringify ids =
          CHR ''['' # number_text x @ concat (map (\<lambda>y. CHR '','' # number_text y) xs) @ [CHR '']'']"
    unfolding JSON_stringify_def Cons by (subst join_number_texts) simp
  then show ?thesis
    by (simp add: Cons lex_open lex_number_text [OF x stops_tail] lex_tail [OF xs])
qed

lemma accepts_tail:
  "accepts After [ArrayFrame] (concat (map (\<lambda>y. [Comma, NumberTok (Some y)]) xs) @ [RBracket])"
  by (induction xs) simp_all

lemma ids_of_tail:
  "ids_of (butlast (concat (map (\<lambda>y. [Comma, NumberTok (Some y)]) xs) @ [RBracket])) = Some xs"
  by (induction xs) (simp_all add: butlast_append)

lemma JSON_roundtrip:
  assumes "\<forall>i\<in>set ids. js_number i"
  shows "JSON_parse (JSON_stringify ids) = IdList ids"
proof (cases ids)
  case Nil
  with lex_JSON_stringify [OF assms] show ?thesis by (simp add: JSON_parse_def)
next
  case (Cons x xs)
  with lex_JSON_stringify [OF assms] accepts_tail [of xs] ids_of_tail [of xs] show ?thesis
    by (simp add: JSON_parse_def butlast_append)
qed

lemma JSON_stringify_nonempty: "JSON_stringify ids \<noteq> []"
  by (simp add: JSON_stringify_def)

lemma JSON_stringify_1_2: "JSON_stringify [1, 2] = ''[1,2]''"
  by code_simp

lemma JSON_stringify_1_3: "JSON_stringify [1, 3] = ''[1,3]''"
  by code_simp

subsection \<open>Sample texts\<close>

lemma number_text_samples:
  "number_text 0 = ''0''"
  "number_text (- 20) = ''-20''"
  "number_text 9007199254740994 = ''9007199254740994''"
  "number_text (2 ^ 64) = ''18446744073709552000''"
  "number_text (10 ^ 21) = ''1e+21''"
  "number_text (2 ^ 70) = ''1.1805916207174113e+21''"
  by code_simp+

lemma js_number_samples:
  "js_number (2 ^ 53)" "\<not> js_number (2 ^ 53 + 1)" "js_number (2 ^ 53 + 2)"
  "js_number (10 ^ 21)" "\<not> js_number (10 ^ 23)"
  by code_simp+

lemma JSON_parse_samples:
  "JSON_parse ''[1e2,3.0]'' = IdList [100, 3]"
  "JSON_parse ''[1e+21]'' = IdList [10 ^ 21]"
  "JSON_parse ''[9007199254740993]'' = IdList [9007199254740992]"
  "JSON_parse '' [ ] '' = IdList []"
  "JSON_parse ''7'' = OtherValue"
  "JSON_parse ''[1.5]'' = OtherValue"
  "JSON_parse ''[[1]]'' = OtherValue"
  "JSON_parse ''null'' = OtherValue"
  "JSON_parse ''[1,]'' = SyntaxError"
  "JSON_parse ''[01]'' = SyntaxError"
  "JSON_parse ''[1'' = SyntaxError"
  by code_simp+

subsection \<open>One toggle\<close>

lemma toggleFavorite_state:
  "fst (toggleFavorite ok i c) =
     (fst c)\<lparr>favorites := (if i \<in> set (favorites (fst c))
                            then filter (\<lambda>j. j \<noteq> i) (favorites (fst c))
                            else favorites (fst c) @ [i])\<rparr>"
  by (cases ok)
     (simp_all add: toggleFavorite_def Let_def setFavorites_def saveFavorites_def
        AsyncStorage_setItem_def console_error_def includes_iff)

lemma toggleFavorite_favorites:
  "favorites (fst (toggleFavorite ok i c)) =
     (if i \<in> set (favorites (fst c)) then filter (\<lambda>j. j \<noteq> i) (favorites (fst c))
      else favorites (fst c) @ [i])"
  by (simp add: toggleFavorite_state)

lemma toggleFavorite_distinct:
  "distinct (favorites (fst c)) \<Longrightarrow> distinct (favorites (fst (toggleFavorite ok i c)))"
  by (simp add: toggleFavorite_favorites)

lemma toggleFavorite_set:
  "set (favorites (fst (toggleFavorite ok i c))) =
     (set (favorites (fst c)) - {i}) \<union> ({i} - set (favorites (fst c)))"
  by (auto simp: toggleFavorite_favorites)

lemma toggleFavorites_set_distinct:
  "distinct (favorites (fst c)) \<Longrightarrow>
     set (favorites (fst (toggleFavorites calls c))) =
       (set (favorites (fst c)) - {i. odd (count_list (map snd calls) i)})
         \<union> ({i. odd (count_list (map snd calls) i)} - set (favorites (fst c)))
     \<and> distinct (favorites (fst (toggleFavorites calls c)))"
proof (induction calls arbitrary: c)
  case Nil
  then show ?case by simp
next
  case (Cons call calls)
  obtain ok i where call: "call = (ok, i)" by (cases call)
  let ?c = "toggleFavorite ok i c"
  have d: "distinct (favorites (fst ?c))"
    using Cons.prems by (rule toggleFavorite_distinct)
  from Cons.IH [OF d] show ?case
    unfolding call by (auto simp: toggleFavorite_set)
qed

subsection \<open>The claims\<close>

text \<open>
  C1. From a favorites list without duplicates, any finite run of \<^verbatim>\<open>toggleFavorite\<close> calls
  (whatever the outcome of each storage write) ends in a list without duplicates whose set
  is the symmetric difference of the starting set and the set of ids toggled an odd number
  of times. From \<open>[1, 3]\<close>, toggling 3 gives \<open>[1]\<close>, and toggling 2 after that gives
  \<open>[1, 2]\<close>.
\<close>

theorem toggleFavorite_sequence:
  "(distinct (favorites (fst c)) \<longrightarrow>
      set (favorites (fst (toggleFavorites calls c))) =
        (set (favorites (fst c)) - {i. odd (count_list (map snd calls) i)})
          \<union> ({i. odd (count_list (map snd calls) i)} - set (favorites (fst c)))
      \<and> distinct (favorites (fst (toggleFavorites calls c))))
   \<and> (favorites (fst c) = [1, 3] \<longrightarrow>
        favorites (fst (toggleFavorite ok1 3 c)) = [1]
        \<and> favorites (fst (toggleFavorite ok2 2 (toggleFavorite ok1 3 c))) = [1, 2])"
  using toggleFavorites_set_distinct [of c calls]
  by (simp add: toggleFavorite_favorites)

theorem toggleFavorite_sequence_witness:
  "distinct (favorites (fst (initial_state\<lparr>favorites := [1, 3]\<rparr>, fresh_world)))
   \<and> favorites (fst (toggleFavorites [(True, 3), (False, 2)]
         (initial_state\<lparr>favorites := [1, 3]\<rparr>, fresh_world))) = [1, 2]
   \<and> set (favorites (fst (toggleFavorites [(True, 3), (False, 2)]
         (initial_state\<lparr>favorites := [1, 3]\<rparr>, fresh_world)))) = {1, 2}
   \<and> distinct (favorites (fst (toggleFavorites [(True, 3), (False, 2)]
         (initial_state\<lparr>favorites := [1, 3]\<rparr>, fresh_world))))"
  using toggleFavorite_sequence
          [of "(initial_state\<lparr>favorites := [1, 3]\<rparr>, fresh_world)" "[(True, 3), (False, 2)]" True False]
  by (simp add: toggleFavorite_favorites)

text \<open>
  C2. With the filter flag set, \<^verbatim>\<open>getFilteredUsers\<close> returns the users whose id is a member
  of the favorites, in the order of the users list (it is a subsequence of that list); with
  the flag clear it returns the users list itself.
\<close>

theorem getFilteredUsers_subsequence:
  "(showOnlyFavorites s \<longrightarrow>
      getFilteredUsers s = filter (\<lambda>u. id_user u \<in> set (favorites s)) (users s)
      \<and> subseq (getFilteredUsers s) (users s))
   \<and> (\<not> showOnlyFavorites s \<longrightarrow> getFilteredUsers s = users s)"
  by (simp add: getFilteredUsers_def includes_iff)

theorem getFilteredUsers_subsequence_witness:
  "showOnlyFavorites (initial_state\<lparr>users := [leanne, ervin, clementine], favorites := [3, 1],
       showOnlyFavorites := True\<rparr>)
   \<and> getFilteredUsers (initial_state\<lparr>users := [leanne, ervin, clementine], favorites := [3, 1],
       showOnlyFavorites := True\<rparr>) = [leanne, clementine]
   \<and> \<not> showOnlyFavorites (initial_state\<lparr>users := [leanne, ervin, clementine], favorites := [3, 1]\<rparr>)
   \<and> getFilteredUsers (initial_state\<lparr>users := [leanne, ervin, clementine], favorites := [3, 1]\<rparr>)
       = [leanne, ervin, clementine]"
  using getFilteredUsers_subsequence [of "initial_state\<lparr>users := [leanne, ervin, clementine],
          favorites := [3, 1], showOnlyFavorites := True\<rparr>"]
        getFilteredUsers_subsequence [of "initial_state\<lparr>users := [leanne, ervin, clementine],
          favorites := [3, 1]\<rparr>"]
  by (simp add: initial_state_def leanne_def ervin_def clementine_def)

text \<open>
  C3. When the name field or the email field is empty after trimming, \<^verbatim>\<open>addUser\<close> shows the
  validation alert and returns: the alert is the only event (no request is sent), and the
  whole state (users, favorites, both form fields) and the store are as before.
\<close>

theorem addUser_validation_failure:
  assumes "trim (newUserName (fst c)) = [] \<or> trim (newUserEmail (fst c)) = []"
  shows "fst (addUser response c) = fst c
       \<and> storage (snd (addUser response c)) = storage (snd c)
       \<and> trace (snd (addUser response c)) = trace (snd c) @ [AlertShown ValidationFailure]
       \<and> emitted c (addUser response c) = [AlertShown ValidationFailure]"
  using assms by (auto simp: addUser_def effect_defs)

theorem addUser_validation_failure_witness:
  "trim (newUserName (fst (initial_state\<lparr>newUserName := [], newUserEmail := ''x@x.com''\<rparr>, fresh_world))) = []
   \<and> fst (addUser (Resolved jane) (initial_state\<lparr>newUserName := [], newUserEmail := ''x@x.com''\<rparr>, fresh_world))
       = initial_state\<lparr>newUserName := [], newUserEmail := ''x@x.com''\<rparr>
   \<and> trace (snd (addUser (Resolved jane) (initial_state\<lparr>newUserName := [], newUserEmail := ''x@x.com''\<rparr>, fresh_world)))
       = [AlertShown ValidationFailure]"
proof -
  let ?c = "(initial_state\<lparr>newUserName := [], newUserEmail := ''x@x.com''\<rparr>, fresh_world)"
  have h: "trim (newUserName (fst ?c)) = [] \<or> trim (newUserEmail (fst ?c)) = []"
    by (simp add: trim_def)
  from addUser_validation_failure [OF h, of "Resolved jane"] show ?thesis
    by (simp add: trim_def fresh_world_def)
qed

text \<open>
  C4. When both fields are non-empty after trimming and the POST succeeds with the record
  \<open>u\<close>, \<^verbatim>\<open>addUser\<close> puts \<open>u\<close> at the front of the users list and sets both form fields to the
  empty string. The request carried the name and the email of the form; \<open>u\<close> is what the
  service answers to it.
\<close>

theorem addUser_success:
  assumes "trim (newUserName (fst c)) \<noteq> []" and "trim (newUserEmail (fst c)) \<noteq> []"
  shows "fst (addUser (Resolved u) c) =
           (fst c)\<lparr>users := u # users (fst c), newUserName := [], newUserEmail := []\<rparr>
       \<and> users (fst (addUser (Resolved u) c)) = u # users (fst c)
       \<and> newUserName (fst (addUser (Resolved u) c)) = []
       \<and> newUserEmail (fst (addUser (Resolved u) c)) = []
       \<and> emitted c (addUser (Resolved u) c) =
           [HttpPost (newUserName (fst c)) (newUserEmail (fst c)),
            SetUsers (u # users (fst c)), SetNewUserName [], SetNewUserEmail [],
            AlertShown (AddSuccess (name u) (id_user u))]"
  using assms by (simp add: addUser_def effect_defs)

theorem addUser_success_witness:
  "trim (newUserName (fst (initial_state\<lparr>users := [leanne], newUserName := ''Jane'', newUserEmail := ''jane@x.com''\<rparr>, fresh_world))) \<noteq> []
   \<and> trim (newUserEmail (fst (initial_state\<lparr>users := [leanne], newUserName := ''Jane'', newUserEmail := ''jane@x.com''\<rparr>, fresh_world))) \<noteq> []
   \<and> fst (addUser (Resolved jane) (initial_state\<lparr>users := [leanne], newUserName := ''Jane'', newUserEmail := ''jane@x.com''\<rparr>, fresh_world))
       = initial_state\<lparr>users := [jane, leanne]\<rparr>"
proof -
  let ?c = "(initial_state\<lparr>users := [leanne], newUserName := ''Jane'', newUserEmail := ''jane@x.com''\<rparr>, fresh_world)"
  have n: "trim (newUserName (fst ?c)) \<noteq> []" by (simp add: trim_def is_js_ws_def)
  have e: "trim (newUserEmail (fst ?c)) \<noteq> []" by (simp add: trim_def is_js_ws_def)
  from addUser_success [OF n e, of jane] n e show ?thesis
    by (simp add: initial_state_def)
qed

text \<open>
  C5. \<^verbatim>\<open>toggleFavorite\<close> calls \<^verbatim>\<open>setFavorites\<close> with the new list before it attempts the
  storage write. When the write fails, the state holds the same new list as when it
  succeeds, the only further event is the diagnostic log (no alert), and the store is left
  as it was while the favorites in memory have changed.
\<close>

theorem toggleFavorite_save_failure:
  "fst (toggleFavorite False userId c) =
       (fst c)\<lparr>favorites := favorites (fst (toggleFavorite True userId c))\<rparr>
   \<and> fst (toggleFavorite True userId c) =
       (fst c)\<lparr>favorites := (if userId \<in> set (favorites (fst c))
                               then filter (\<lambda>i. i \<noteq> userId) (favorites (fst c))
                               else favorites (fst c) @ [userId])\<rparr>
   \<and> emitted c (toggleFavorite True userId c) =
       [SetFavorites (favorites (fst (toggleFavorite True userId c))),
        StorageSet FAVORITES_KEY (JSON_stringify (favorites (fst (toggleFavorite True userId c))))]
   \<and> emitted c (toggleFavorite False userId c) =
       [SetFavorites (favorites (fst (toggleFavorite True userId c))),
        StorageSet FAVORITES_KEY (JSON_stringify (favorites (fst (toggleFavorite True userId c)))),
        ConsoleError SaveError]
   \<and> storage (snd (toggleFavorite False userId c)) = storage (snd c)
   \<and> set (favorites (fst (toggleFavorite False userId c))) \<noteq> set (favorites (fst c))"
  by (auto simp: toggleFavorite_def saveFavorites_def Let_def effect_defs includes_iff)

theorem toggleFavorite_save_failure_witness:
  "favorites (fst (toggleFavorite False 2 (initial_state\<lparr>favorites := [1]\<rparr>,
       fresh_world\<lparr>storage := [FAVORITES_KEY \<mapsto> ''[1]'']\<rparr>))) = [1, 2]
   \<and> storage (snd (toggleFavorite False 2 (initial_state\<lparr>favorites := [1]\<rparr>,
       fresh_world\<lparr>storage := [FAVORITES_KEY \<mapsto> ''[1]'']\<rparr>))) FAVORITES_KEY = Some ''[1]''
   \<and> emitted (initial_state\<lparr>favorites := [1]\<rparr>, fresh_world\<lparr>storage := [FAVORITES_KEY \<mapsto> ''[1]'']\<rparr>)
        (toggleFavorite False 2 (initial_state\<lparr>favorites := [1]\<rparr>,
           fresh_world\<lparr>storage := [FAVORITES_KEY \<mapsto> ''[1]'']\<rparr>))
       = [SetFavorites [1, 2], StorageSet FAVORITES_KEY ''[1,2]'', ConsoleError SaveError]"
  using toggleFavorite_save_failure [of 2 "(initial_state\<lparr>favorites := [1]\<rparr>,
       fresh_world\<lparr>storage := [FAVORITES_KEY \<mapsto> ''[1]'']\<rparr>)"]
  by (simp add: toggleFavorite_state JSON_stringify_1_2 fresh_world_def)

text \<open>
  C6. When the GET of \<^verbatim>\<open>loadData\<close> fails, the load-failure alert is shown, the storage key is
  not read, the favorites keep their prior value, and \<open>isLoading\<close> ends \<open>False\<close>.
\<close>

theorem loadData_fetch_failure:
  "fst (loadData Rejected getItem_ok c) = (fst c)\<lparr>isLoading := False\<rparr>
   \<and> favorites (fst (loadData Rejected getItem_ok c)) = favorites (fst c)
   \<and> isLoading (fst (loadData Rejected getItem_ok c)) = False
   \<and> emitted c (loadData Rejected getItem_ok c) =
       [SetIsLoading True, HttpGet, AlertShown LoadFailure, ConsoleError LoadError,
        SetIsLoading False]
   \<and> StorageGet FAVORITES_KEY \<notin> set (emitted c (loadData Rejected getItem_ok c))
   \<and> storage (snd (loadData Rejected getItem_ok c)) = storage (snd c)"
  by (simp add: loadData_def Let_def effect_defs)

theorem loadData_fetch_failure_witness:
  "favorites (fst (loadData Rejected True
       (initial_state, fresh_world\<lparr>storage := [FAVORITES_KEY \<mapsto> ''[1,3]'']\<rparr>))) = []
   \<and> isLoading (fst (loadData Rejected True
       (initial_state, fresh_world\<lparr>storage := [FAVORITES_KEY \<mapsto> ''[1,3]'']\<rparr>))) = False
   \<and> trace (snd (loadData Rejected True
       (initial_state, fresh_world\<lparr>storage := [FAVORITES_KEY \<mapsto> ''[1,3]'']\<rparr>))) =
       [SetIsLoading True, HttpGet, AlertShown LoadFailure, ConsoleError LoadError,
        SetIsLoading False]"
  using loadData_fetch_failure
          [of True "(initial_state, fresh_world\<lparr>storage := [FAVORITES_KEY \<mapsto> ''[1,3]'']\<rparr>)"]
  by (simp add: initial_state_def fresh_world_def emitted_def)

text \<open>
  The dialog of \<^verbatim>\<open>clearAllFavorites\<close> has the two buttons; "Annuler" changes nothing, and
  "Effacer", when the deletion succeeds, removes the key, empties the favorites and reports
  success.
\<close>

lemma clearAllFavorites_confirmed:
  "buttons ClearConfirmation = [(Annuler, Cancel), (Effacer, Destructive)]
   \<and> emitted c (clearAllFavorites True c) = [AlertShown ClearConfirmation]
   \<and> fst (clearAllFavorites True c) = fst c
   \<and> storage (snd (clearAllFavorites True c)) = storage (snd c)
   \<and> press Annuler removeItem_ok (clearAllFavorites True c) = clearAllFavorites True c
   \<and> fst (press Effacer True (clearAllFavorites True c)) = (fst c)\<lparr>favorites := []\<rparr>
   \<and> storage (snd (press Effacer True (clearAllFavorites True c))) = (storage (snd c))(FAVORITES_KEY := None)
   \<and> emitted c (press Effacer True (clearAllFavorites True c)) =
       [AlertShown ClearConfirmation, StorageRemove FAVORITES_KEY, SetFavorites [],
        AlertShown ClearSuccess]"
  by (simp add: clearAllFavorites_def onPress_Effacer_def clearFavorites_def effect_defs)

text \<open>
  C7. The claim asks that the user be notified when the storage deletion fails. With
  favorites \<open>[1, 3]\<close> in memory and in the store, the user confirms with "Effacer" and
  \<^verbatim>\<open>removeItem\<close> rejects: the state is unchanged, the rejection is handled by nobody, and no
  failure alert is shown, since the \<^verbatim>\<open>catch\<close> block that holds it guards only the opening
  of the dialog.
\<close>

theorem clearAllFavorites_delete_failure:
  "fst (press Effacer False (clearAllFavorites True
         (initial_state\<lparr>favorites := [1, 3]\<rparr>, fresh_world\<lparr>storage := [FAVORITES_KEY \<mapsto> ''[1,3]'']\<rparr>)))
     = initial_state\<lparr>favorites := [1, 3]\<rparr>
   \<and> trace (snd (press Effacer False (clearAllFavorites True
         (initial_state\<lparr>favorites := [1, 3]\<rparr>, fresh_world\<lparr>storage := [FAVORITES_KEY \<mapsto> ''[1,3]'']\<rparr>))))
     = [AlertShown ClearConfirmation, StorageRemove FAVORITES_KEY, UnhandledRejection]
   \<and> AlertShown ClearFailure \<notin> set (trace (snd (press Effacer False (clearAllFavorites True
         (initial_state\<lparr>favorites := [1, 3]\<rparr>, fresh_world\<lparr>storage := [FAVORITES_KEY \<mapsto> ''[1,3]'']\<rparr>)))))"
  by (simp add: clearAllFavorites_def onPress_Effacer_def clearFavorites_def effect_defs
        fresh_world_def)

text \<open>
  C8. For every list of ids (integers held by JavaScript numbers), writing its JSON text
  under the key and then reading and parsing the key, with no write in between, yields the
  list that was written (the same list, hence the same set). In the handlers: \<^verbatim>\<open>loadData\<close>,
  run after a \<^verbatim>\<open>toggleFavorite\<close> whose write succeeded, sets the favorites to the list that
  toggle committed, whatever the component state it starts from.
\<close>

theorem save_then_load_favorites:
  "((\<forall>i\<in>set ids. js_number i) \<longrightarrow>
      JSON_parse (JSON_stringify ids) = IdList ids
      \<and> storage (snd (snd (saveFavorites True ids c))) FAVORITES_KEY = Some (JSON_stringify ids)
      \<and> fst (loadFavorites True (snd (saveFavorites True ids c))) = Resolved ()
      \<and> favorites (fst (snd (loadFavorites True (snd (saveFavorites True ids c))))) = ids
      \<and> set (favorites (fst (snd (loadFavorites True (snd (saveFavorites True ids c)))))) = set ids)
   \<and> (js_number userId \<and> (\<forall>i\<in>set (favorites (fst c)). js_number i) \<longrightarrow>
        favorites (fst (loadData (Resolved data) True (s, snd (toggleFavorite True userId c))))
          = favorites (fst (toggleFavorite True userId c)))"
proof -
  have a: "(\<forall>i\<in>set ids. js_number i) \<longrightarrow>
      JSON_parse (JSON_stringify ids) = IdList ids
      \<and> storage (snd (snd (saveFavorites True ids c))) FAVORITES_KEY = Some (JSON_stringify ids)
      \<and> fst (loadFavorites True (snd (saveFavorites True ids c))) = Resolved ()
      \<and> favorites (fst (snd (loadFavorites True (snd (saveFavorites True ids c))))) = ids
      \<and> set (favorites (fst (snd (loadFavorites True (snd (saveFavorites True ids c)))))) = set ids"
    by (simp add: loadFavorites_def saveFavorites_def effect_defs JSON_roundtrip
          JSON_stringify_nonempty)
  have b: "favorites (fst (loadData (Resolved data) True (s, snd (toggleFavorite True userId c))))
          = favorites (fst (toggleFavorite True userId c))"
    if u: "js_number userId" and f: "\<forall>i\<in>set (favorites (fst c)). js_number i"
  proof -
    let ?new = "if userId \<in> set (favorites (fst c))
                then filter (\<lambda>i. i \<noteq> userId) (favorites (fst c))
                else favorites (fst c) @ [userId]"
    have "\<forall>i\<in>set ?new. js_number i" using u f by auto
    then have "JSON_parse (JSON_stringify ?new) = IdList ?new" by (rule JSON_roundtrip)
    then show ?thesis
      by (simp add: loadData_def loadFavorites_def toggleFavorite_def saveFavorites_def Let_def
            effect_defs includes_iff JSON_stringify_nonempty)
  qed
  from a b show ?thesis by blast
qed

theorem save_then_load_favorites_witness:
  "js_number 1 \<and> js_number 3 \<and> js_number 1000000000000000000000
   \<and> storage (snd (snd (saveFavorites True [1, 3, 1000000000000000000000] (initial_state, fresh_world)))) FAVORITES_KEY
       = Some ''[1,3,1e+21]''
   \<and> favorites (fst (snd (loadFavorites True
        (snd (saveFavorites True [1, 3, 1000000000000000000000] (initial_state, fresh_world))))))
       = [1, 3, 1000000000000000000000]
   \<and> js_number 2
   \<and> favorites (fst (loadData (Resolved [leanne]) True
        (initial_state, snd (toggleFavorite True 2 (initial_state\<lparr>favorites := [1]\<rparr>, fresh_world)))))
       = [1, 2]"
proof -
  have ids: "\<forall>i\<in>set [1, 3, 1000000000000000000000]. js_number i" by code_simp
  have written: "JSON_stringify [1, 3, 1000000000000000000000] = ''[1,3,1e+21]''" by code_simp
  have two: "js_number 2" and one: "js_number 1" by code_simp+
  from save_then_load_favorites
         [where ids = "[1, 3, 1000000000000000000000]" and c = "(initial_state, fresh_world)"]
       save_then_load_favorites
         [where userId = 2 and c = "(initial_state\<lparr>favorites := [1]\<rparr>, fresh_world)"
            and data = "[leanne]" and s = initial_state]
       ids two one
  show ?thesis
    by (simp add: written toggleFavorite_favorites)
qed

text \<open>
  C9. After the key is deleted, reading it finds nothing: \<open>loadFavorites\<close> succeeds without
  calling \<^verbatim>\<open>setFavorites\<close>. The confirmed clear leaves the favorites empty, and a following
  \<^verbatim>\<open>loadData\<close>, from that state or from the initial state of a new mount, keeps them empty.
\<close>

theorem clear_then_load_favorites:
  "storage (snd (snd (clearFavorites True c))) FAVORITES_KEY = None
   \<and> fst (loadFavorites True (snd (clearFavorites True c))) = Resolved ()
   \<and> fst (snd (loadFavorites True (snd (clearFavorites True c)))) = fst c
   \<and> emitted (snd (clearFavorites True c)) (snd (loadFavorites True (snd (clearFavorites True c))))
       = [StorageGet FAVORITES_KEY]
   \<and> favorites (fst (press Effacer True (clearAllFavorites True c))) = []
   \<and> favorites (fst (loadData response getItem_ok (press Effacer True (clearAllFavorites True c)))) = []
   \<and> favorites (fst (loadData response getItem_ok
        (initial_state, snd (press Effacer True (clearAllFavorites True c))))) = []"
  by (cases response; cases getItem_ok)
     (simp_all add: loadFavorites_def clearFavorites_def loadData_def clearAllFavorites_def
        onPress_Effacer_def Let_def effect_defs initial_state_def)

theorem clear_then_load_favorites_witness:
  "favorites (fst (loadData (Resolved [leanne]) True
      (press Effacer True (clearAllFavorites True
         (initial_state\<lparr>favorites := [1, 3]\<rparr>, fresh_world\<lparr>storage := [FAVORITES_KEY \<mapsto> ''[1,3]'']\<rparr>))))) = []
   \<and> storage (snd (press Effacer True (clearAllFavorites True
         (initial_state\<lparr>favorites := [1, 3]\<rparr>, fresh_world\<lparr>storage := [FAVORITES_KEY \<mapsto> ''[1,3]'']\<rparr>))))
       FAVORITES_KEY = None"
  using clear_then_load_favorites [of "(initial_state\<lparr>favorites := [1, 3]\<rparr>,
      fresh_world\<lparr>storage := [FAVORITES_KEY \<mapsto> ''[1,3]'']\<rparr>)" "Resolved [leanne]" True]
  by (simp add: clearAllFavorites_def onPress_Effacer_def clearFavorites_def effect_defs)

text \<open>
  C10. \<^verbatim>\<open>toggleFavorite\<close> changes no field of the state but \<open>favorites\<close>. In the favorites
  the membership of the toggled id flips, every other id keeps its membership (and its
  number of occurrences), and the remove branch drops every occurrence of the id.
\<close>

theorem toggleFavorite_frame:
  "users (fst (toggleFavorite ok userId c)) = users (fst c)
   \<and> isLoading (fst (toggleFavorite ok userId c)) = isLoading (fst c)
   \<and> showOnlyFavorites (fst (toggleFavorite ok userId c)) = showOnlyFavorites (fst c)
   \<and> newUserName (fst (toggleFavorite ok userId c)) = newUserName (fst c)
   \<and> newUserEmail (fst (toggleFavorite ok userId c)) = newUserEmail (fst c)
   \<and> fst (toggleFavorite ok userId c) =
       (fst c)\<lparr>favorites := favorites (fst (toggleFavorite ok userId c))\<rparr>
   \<and> (\<forall>j. j \<noteq> userId \<longrightarrow>
         (j \<in> set (favorites (fst (toggleFavorite ok userId c))) \<longleftrightarrow> j \<in> set (favorites (fst c)))
         \<and> count_list (favorites (fst (toggleFavorite ok userId c))) j = count_list (favorites (fst c)) j)
   \<and> (userId \<in> set (favorites (fst (toggleFavorite ok userId c))) \<longleftrightarrow> userId \<notin> set (favorites (fst c)))
   \<and> (userId \<in> set (favorites (fst c)) \<longrightarrow>
         favorites (fst (toggleFavorite ok userId c)) = filter (\<lambda>i. i \<noteq> userId) (favorites (fst c))
         \<and> count_list (favorites (fst (toggleFavorite ok userId c))) userId = 0)"
proof -
  have other: "count_list (filter (\<lambda>i. i \<noteq> userId) xs) j = count_list xs j" if "j \<noteq> userId"
    for xs :: "int list" and j
    using that by (induction xs) auto
  have self: "count_list (filter (\<lambda>i. i \<noteq> userId) xs) userId = 0" for xs :: "int list"
    by (induction xs) auto
  show ?thesis
    by (simp add: toggleFavorite_state other self)
qed

theorem toggleFavorite_frame_witness:
  "(3::int) \<in> set (favorites (fst (initial_state\<lparr>users := [leanne], favorites := [3, 1, 3]\<rparr>, fresh_world)))
   \<and> favorites (fst (toggleFavorite True 3
        (initial_state\<lparr>users := [leanne], favorites := [3, 1, 3]\<rparr>, fresh_world))) = [1]
   \<and> count_list (favorites (fst (toggleFavorite True 3
        (initial_state\<lparr>users := [leanne], favorites := [3, 1, 3]\<rparr>, fresh_world)))) 3 = 0
   \<and> users (fst (toggleFavorite True 3
        (initial_state\<lparr>users := [leanne], favorites := [3, 1, 3]\<rparr>, fresh_world))) = [leanne]"
  using toggleFavorite_frame [of True 3 "(initial_state\<lparr>users := [leanne], favorites := [3, 1, 3]\<rparr>, fresh_world)"]
  by simp

end
